theory Spec2Isabelle
  imports Complex_Main
begin

section \<open>Numbers and strings of the source language\<close>

text \<open>
  The program is TypeScript. A \<^verbatim>\<open>number\<close> is modelled as a \<^typ>\<open>real\<close> (finite
  doubles, rounding error left out), \<^verbatim>\<open>number | null\<close> and an optional field as
  \<^typ>\<open>real option\<close>, a \<^verbatim>\<open>string | null\<close> as \<^typ>\<open>string option\<close>. Years and
  identifiers are integers. The database handle that the source obtains from
  \<^verbatim>\<open>getDatabase()\<close> is an explicit argument.
\<close>

text \<open>\<^verbatim>\<open>!v\<close> for \<^verbatim>\<open>v: number | null\<close>: null and 0 are falsy.\<close>

definition js_not :: "real option \<Rightarrow> bool" where
  "js_not v = (case v of None \<Rightarrow> True | Some x \<Rightarrow> x = 0)"

text \<open>\<^verbatim>\<open>!s\<close> for \<^verbatim>\<open>s: string | null | undefined\<close>: null and the empty string are falsy.\<close>

definition js_not_str :: "string option \<Rightarrow> bool" where
  "js_not_str s = (case s of None \<Rightarrow> True | Some x \<Rightarrow> x = [])"

text \<open>\<^verbatim>\<open>!n\<close> for an optional integer argument such as \<^verbatim>\<open>year?: number\<close>.\<close>

definition js_not_int :: "int option \<Rightarrow> bool" where
  "js_not_int n = (case n of None \<Rightarrow> True | Some x \<Rightarrow> x = 0)"


text \<open>\<^verbatim>\<open>Math.floor\<close> of a non-negative number used as an array index.\<close>

definition Math_floor_idx :: "real \<Rightarrow> nat" where
  "Math_floor_idx x = nat \<lfloor>x\<rfloor>"

text \<open>
  \<^verbatim>\<open>toLowerCase\<close> (and SQL \<^verbatim>\<open>LOWER\<close>) on the ASCII letters; other bytes are
  left as they are.
\<close>

definition lower_char :: "char \<Rightarrow> char" where
  "lower_char c =
     (let n = of_char c :: nat
      in if 65 \<le> n \<and> n \<le> 90 then char_of (n + 32) else c)"

definition toLowerCase :: "string \<Rightarrow> string" where
  "toLowerCase s = map lower_char s"

text \<open>\<^verbatim>\<open>hay.includes(needle)\<close>: the needle occurs as a contiguous substring.\<close>

fun starts_with :: "string \<Rightarrow> string \<Rightarrow> bool" where
  "starts_with hay [] = True"
| "starts_with [] (n # ns) = False"
| "starts_with (h # hs) (n # ns) = (h = n \<and> starts_with hs ns)"

fun str_includes :: "string \<Rightarrow> string \<Rightarrow> bool" where
  "str_includes [] needle = (needle = [])"
| "str_includes (h # hs) needle = (starts_with (h # hs) needle \<or> str_includes hs needle)"

text \<open>
  A division whose divisor may be zero yields a non-finite \<^verbatim>\<open>number\<close> in the source;
  the one place where the program keeps such a value is the percent change of the trend
  analysis.
\<close>

datatype jsnum = Num real | PosInfinity | NegInfinity | NaN

definition js_div :: "real \<Rightarrow> real \<Rightarrow> jsnum" where
  "js_div a b =
     (if b \<noteq> 0 then Num (a / b)
      else if 0 < a then PosInfinity
      else if a < 0 then NegInfinity
      else NaN)"

fun js_scale :: "jsnum \<Rightarrow> real \<Rightarrow> jsnum" where
  "js_scale (Num x) k = Num (x * k)"
| "js_scale v k = v"

fun js_abs_gt :: "jsnum \<Rightarrow> real \<Rightarrow> bool" where
  "js_abs_gt (Num x) k = (k < \<bar>x\<bar>)"
| "js_abs_gt PosInfinity k = True"
| "js_abs_gt NegInfinity k = True"
| "js_abs_gt NaN k = False"

fun js_gt :: "jsnum \<Rightarrow> real \<Rightarrow> bool" where
  "js_gt (Num x) k = (k < x)"
| "js_gt PosInfinity k = True"
| "js_gt NegInfinity k = False"
| "js_gt NaN k = False"


section \<open>Compound annual growth rate\<close>

text \<open>
  \<^verbatim>\<open>calculateCAGR\<close> of the year-to-year comparison. \<^verbatim>\<open>Math.pow\<close> is the real power
  \<open>powr\<close>; for a negative ratio the source yields NaN, so the value of the rate is
  stated for non-negative end values only.
\<close>

definition calculateCAGR :: "real option \<Rightarrow> real option \<Rightarrow> int \<Rightarrow> real option" where
  "calculateCAGR beginValue endValue yearsApart =
     (case (beginValue, endValue) of
        (Some b, Some e) \<Rightarrow>
          if js_not (Some b) \<or> js_not (Some e) \<or> b \<le> 0 \<or> yearsApart \<le> 1 then None
          else Some (((e / b) powr (1 / real_of_int yearsApart) - 1) * 100)
      | _ \<Rightarrow> None)"

text \<open>\<^verbatim>\<open>calculatePercentChange\<close>, the sibling of \<^verbatim>\<open>calculateCAGR\<close>.\<close>

definition calculatePercentChange :: "real option \<Rightarrow> real option \<Rightarrow> real option" where
  "calculatePercentChange oldValue newValue =
     (case (oldValue, newValue) of
        (Some ov, Some nv) \<Rightarrow> if ov = 0 then None else Some (((nv - ov) / ov) * 100)
      | _ \<Rightarrow> None)"


section \<open>Trend analysis of a peer group\<close>

record PeerTrendDataPoint =
  year :: int
  count :: nat
  mean :: real
  median :: real
  min_stat :: real
  max_stat :: real
  percentile25 :: real
  percentile75 :: real

datatype TrendDirection = increasing | decreasing | stable | insufficient_data

record TrendAnalysis =
  overallTrendDirection :: TrendDirection
  meanChange :: "real option"
  meanChangePercent :: "jsnum option"
  averageAnnualChange :: "real option"
  averageAnnualGrowthRate :: "real option"

text \<open>The loop over \<^verbatim>\<open>i = 1 .. length - 1\<close> that adds up the year-over-year changes.\<close>

fun totalYoYChange :: "PeerTrendDataPoint list \<Rightarrow> real" where
  "totalYoYChange (p # q # ps) = (mean q - mean p) + totalYoYChange (q # ps)"
| "totalYoYChange ps = 0"

definition analyzeTrend :: "PeerTrendDataPoint list \<Rightarrow> TrendAnalysis" where
  "analyzeTrend dataPoints =
     (if length dataPoints < 2 then
        \<lparr> overallTrendDirection = insufficient_data, meanChange = None,
          meanChangePercent = None, averageAnnualChange = None,
          averageAnnualGrowthRate = None \<rparr>
      else
        let firstPoint = hd dataPoints;
            lastPoint = last dataPoints;
            yearsApart = year lastPoint - year firstPoint;
            mc = mean lastPoint - mean firstPoint;
            mcp = js_scale (js_div mc (mean firstPoint)) 100;
            yoyCount = length dataPoints - 1;
            aac = (if 0 < yoyCount then Some (totalYoYChange dataPoints / real yoyCount)
                   else None);
            aagr = (if 0 < yearsApart \<and> 0 < mean firstPoint
                    then Some (((mean lastPoint / mean firstPoint)
                                  powr (1 / real_of_int yearsApart) - 1) * 100)
                    else None);
            dir = (if js_abs_gt mcp 5
                   then (if js_gt mcp 0 then increasing else decreasing)
                   else stable)
        in \<lparr> overallTrendDirection = dir, meanChange = Some mc,
             meanChangePercent = Some mcp, averageAnnualChange = aac,
             averageAnnualGrowthRate = aagr \<rparr>)"


section \<open>Statistics of a peer group\<close>

record PeerGroupStats =
  count :: nat
  mean :: real
  median :: real
  stdDev :: real
  min_stat :: real
  max_stat :: real
  percentile25 :: real
  percentile75 :: real

subsection \<open>The benchmarking engine: statistics over an array of values\<close>

text \<open>
  \<^verbatim>\<open>calculatePeerStats\<close>. The fields \<^verbatim>\<open>min\<close> and \<^verbatim>\<open>max\<close> of the source are
  \<open>min_stat\<close> and \<open>max_stat\<close> here. \<^verbatim>\<open>[...values].sort((a, b) => a - b)\<close> is the
  ascending numeric sort.
\<close>

definition calculatePeerStats :: "real list \<Rightarrow> PeerGroupStats" where
  "calculatePeerStats values =
     (if length values = 0 then
        \<lparr> count = 0, mean = 0, median = 0, stdDev = 0, min_stat = 0, max_stat = 0,
          percentile25 = 0, percentile75 = 0 \<rparr>
      else
        let sorted = sort values;
            n = length sorted;
            mean = foldl (\<lambda>sum v. sum + v) 0 values / real n;
            median = (if n mod 2 = 0
                      then (sorted ! (n div 2 - 1) + sorted ! (n div 2)) / 2
                      else sorted ! Math_floor_idx (real n / 2));
            variance = foldl (\<lambda>sum v. sum + (v - mean) ^ 2) 0 values / real n;
            stdDev = sqrt variance;
            percentile25 = sorted ! Math_floor_idx (real n * 0.25);
            percentile75 = sorted ! Math_floor_idx (real n * 0.75)
        in \<lparr> count = n, mean = mean, median = median, stdDev = stdDev,
             min_stat = sorted ! 0, max_stat = sorted ! (n - 1),
             percentile25 = percentile25, percentile75 = percentile75 \<rparr>)"




subsection \<open>The record store\<close>

text \<open>
  The rows of the two tables. The fifteen numbered Scope 3 columns
  \<^verbatim>\<open>scope3_cat_N\<close>, \<^verbatim>\<open>scope3_cat_N_method\<close> and \<^verbatim>\<open>scope3_cat_N_relevancy\<close>, which the
  source reads by building the column name from \<open>N\<close>, are functions of \<open>N\<close>. The column
  \<^verbatim>\<open>id\<close> is \<open>row_id\<close>.
\<close>

record CompanyRow =
  nz_id :: int
  company_name :: string
  jurisdiction :: "string option"
  sics_sector :: "string option"
  sics_sub_sector :: "string option"
  sics_industry :: "string option"
  lei :: "string option"
  latest_reported_year :: "int option"

record EmissionsRow =
  row_id :: int
  nz_id :: int
  year :: int
  scope1 :: "real option"
  scope1_methodology :: "string option"
  scope2_lb :: "real option"
  scope2_mb :: "real option"
  scope2_lb_methodology :: "string option"
  scope2_mb_methodology :: "string option"
  scope3_total :: "real option"
  scope3_cat :: "nat \<Rightarrow> real option"
  scope3_cat_method :: "nat \<Rightarrow> string option"
  scope3_cat_relevancy :: "nat \<Rightarrow> string option"
  organizational_boundary :: "string option"
  verification_status :: "string option"

record Database =
  companies :: "CompanyRow list"
  emissions :: "EmissionsRow list"

datatype Scope = Scope1 | Scope2_lb | Scope2_mb | Scope3

text \<open>\<^verbatim>\<open>scope === 'scope3' ? 'scope3_total' : scope\<close>, read from a row.\<close>

fun column :: "Scope \<Rightarrow> EmissionsRow \<Rightarrow> real option" where
  "column Scope1 e = scope1 e"
| "column Scope2_lb e = scope2_lb e"
| "column Scope2_mb e = scope2_mb e"
| "column Scope3 e = scope3_total e"




subsection \<open>Statistics over the record store\<close>

text \<open>
  The filters of \<^verbatim>\<open>getPeerStatistics\<close>; the fields \<^verbatim>\<open>jurisdiction\<close>,
  \<^verbatim>\<open>sics_sector\<close> and \<^verbatim>\<open>year\<close> carry the prefix \<open>flt_\<close>.
\<close>

record PeerFilters =
  flt_jurisdiction :: "string option"
  flt_sics_sector :: "string option"
  flt_year :: "int option"

text \<open>\<^verbatim>\<open>LOWER(col) = LOWER(?)\<close>; a NULL column matches nothing.\<close>

definition sql_lower_eq :: "string option \<Rightarrow> string \<Rightarrow> bool" where
  "sql_lower_eq col p = (case col of None \<Rightarrow> False | Some s \<Rightarrow> toLowerCase s = toLowerCase p)"

text \<open>The \<^verbatim>\<open>WHERE\<close> clause that \<^verbatim>\<open>getPeerStatistics\<close> assembles.\<close>

definition whereClause :: "Scope \<Rightarrow> PeerFilters \<Rightarrow> EmissionsRow \<Rightarrow> CompanyRow \<Rightarrow> bool" where
  "whereClause scope filters e c =
     ((case column scope e of None \<Rightarrow> False | Some v \<Rightarrow> 0 < v)
      \<and> (js_not_str (flt_jurisdiction filters)
           \<or> sql_lower_eq (jurisdiction c) (the (flt_jurisdiction filters)))
      \<and> (js_not_str (flt_sics_sector filters)
           \<or> sql_lower_eq (sics_sector c) (the (flt_sics_sector filters)))
      \<and> (js_not_int (flt_year filters) \<or> Some (EmissionsRow.year e) = flt_year filters))"

text \<open>
  The query: the values of the column over the join of the two tables, in ascending
  order (\<^verbatim>\<open>ORDER BY\<close>).
\<close>

definition peer_values :: "Database \<Rightarrow> Scope \<Rightarrow> PeerFilters \<Rightarrow> real list" where
  "peer_values db scope filters =
     sort (concat (map (\<lambda>e. concat (map (\<lambda>c.
        if EmissionsRow.nz_id e = CompanyRow.nz_id c \<and> whereClause scope filters e c
        then [the (column scope e)] else []) (companies db))) (emissions db)))"

definition getPeerStatistics :: "Database \<Rightarrow> Scope \<Rightarrow> PeerFilters \<Rightarrow> PeerGroupStats option" where
  "getPeerStatistics db scope filters =
     (let nums = peer_values db scope filters
      in if length nums = 0 then None
         else
           let count = length nums;
               sum = foldl (\<lambda>a b. a + b) 0 nums;
               mean = sum / real count;
               mid = Math_floor_idx (real count / 2);
               median = (if count mod 2 = 0 then (nums ! (mid - 1) + nums ! mid) / 2
                         else nums ! mid);
               p25Idx = Math_floor_idx (real count * 0.25);
               p75Idx = Math_floor_idx (real count * 0.75);
               variance = foldl (\<lambda>acc v. acc + (v - mean) ^ 2) 0 nums / real count
           in Some \<lparr> count = count, mean = mean, median = median, stdDev = sqrt variance,
                     min_stat = nums ! 0, max_stat = nums ! (count - 1),
                     percentile25 = nums ! p25Idx, percentile75 = nums ! p75Idx \<rparr>)"

subsection \<open>Benchmark of one company against the record store\<close>





section \<open>Comparison of several companies\<close>

















section \<open>Comparability rules\<close>

record Scope3Category =
  category_number :: int
  category_name :: string
  cat_emissions :: "real option"
  cat_methodology :: "string option"

text \<open>
  \<^verbatim>\<open>EmissionsData\<close>, the record of the API; an optional field is \<open>None\<close> when
  undefined.
\<close>

record EmissionsData =
  company_id :: int
  year :: int
  scope1_emissions :: "real option"
  scope1_methodology :: "string option"
  scope2_location_based :: "real option"
  scope2_market_based :: "real option"
  scope2_lb_methodology :: "string option"
  scope2_mb_methodology :: "string option"
  scope3_total :: "real option"
  scope3_categories :: "Scope3Category list option"
  organizational_boundary :: "string option"
  verification_status :: "string option"

datatype Scope2Methodology = location_based | market_based

datatype WarningType =
  scope2_mismatch | methodology_mismatch | boundary_mismatch | year_mismatch | data_quality

datatype Severity = error | warning | info

datatype RequestScope = req_scope1 | req_scope2_lb | req_scope2_mb | req_scope2 | req_scope3 | req_total

text \<open>
  The message of a warning, as the template that produces it and the values it
  interpolates. The fixed educational text and the suggestion that accompany each
  message are left out, and so are the explanation and suggestion texts of a check, which
  are rendered from \<open>isComparable\<close> and \<open>warnings\<close>.
\<close>

datatype WarningMessage =
    CannotCompareScope2
  | DifferentReportingYears int int
  | DifferentBoundaries string string
  | DifferentScope1Methodologies string string
  | Scope2MismatchDetected
  | MissingEmissionsData "int list"
  | GenericScope2Requested
  | SomeOnlyReportOther RequestScope

record ComparabilityWarning =
  wtype :: WarningType
  severity :: Severity
  message :: WarningMessage

record ComparabilityCheck =
  isComparable :: bool
  warnings :: "ComparabilityWarning list"

definition checkScope2Comparability :: "Scope2Methodology \<Rightarrow> Scope2Methodology \<Rightarrow> ComparabilityCheck" where
  "checkScope2Comparability methodology1 methodology2 =
     (if methodology1 = methodology2 then \<lparr> isComparable = True, warnings = [] \<rparr>
      else \<lparr> isComparable = False,
             warnings = [\<lparr> wtype = scope2_mismatch, severity = error,
                           message = CannotCompareScope2 \<rparr>] \<rparr>)"

text \<open>
  \<^verbatim>\<open>checkEmissionsComparability\<close>. Each \<^verbatim>\<open>warnings.push\<close> appends to the list, in the
  order of the four checks.
\<close>

definition checkEmissionsComparability :: "EmissionsData \<Rightarrow> EmissionsData \<Rightarrow> ComparabilityCheck" where
  "checkEmissionsComparability emissions1 emissions2 =
     (let w_year =
            (if EmissionsData.year emissions1 \<noteq> EmissionsData.year emissions2
             then [\<lparr> wtype = year_mismatch, severity = warning,
                     message = DifferentReportingYears (EmissionsData.year emissions1)
                                 (EmissionsData.year emissions2) \<rparr>]
             else []);
          w_boundary =
            (if organizational_boundary emissions1 \<noteq> organizational_boundary emissions2
                \<and> \<not> js_not_str (organizational_boundary emissions1)
                \<and> \<not> js_not_str (organizational_boundary emissions2)
             then [\<lparr> wtype = boundary_mismatch, severity = warning,
                     message = DifferentBoundaries (the (organizational_boundary emissions1))
                                 (the (organizational_boundary emissions2)) \<rparr>]
             else []);
          w_scope1 =
            (if \<not> js_not_str (scope1_methodology emissions1)
                \<and> \<not> js_not_str (scope1_methodology emissions2)
                \<and> scope1_methodology emissions1 \<noteq> scope1_methodology emissions2
             then [\<lparr> wtype = methodology_mismatch, severity = info,
                     message = DifferentScope1Methodologies (the (scope1_methodology emissions1))
                                 (the (scope1_methodology emissions2)) \<rparr>]
             else []);
          hasScope2LB1 = (scope2_location_based emissions1 \<noteq> None);
          hasScope2MB1 = (scope2_market_based emissions1 \<noteq> None);
          hasScope2LB2 = (scope2_location_based emissions2 \<noteq> None);
          hasScope2MB2 = (scope2_market_based emissions2 \<noteq> None);
          mixedComparison = ((hasScope2LB1 \<and> \<not> hasScope2LB2 \<and> hasScope2MB2)
                             \<or> (hasScope2MB1 \<and> \<not> hasScope2MB2 \<and> hasScope2LB2));
          w_scope2 =
            (if mixedComparison
             then [\<lparr> wtype = scope2_mismatch, severity = error,
                     message = Scope2MismatchDetected \<rparr>]
             else [])
      in \<lparr> isComparable = \<not> mixedComparison,
           warnings = w_year @ w_boundary @ w_scope1 @ w_scope2 \<rparr>)"



section \<open>Data quality assessment\<close>

datatype QualityScore = HIGH | MEDIUM | LOW

datatype MethodQualityTier = PRIMARY | MODELED | UNKNOWN

definition STANDARD_BOUNDARIES :: "string list" where
  "STANDARD_BOUNDARIES = [''Operational control'', ''Financial control'', ''Equity share'']"

definition assessBoundaryQuality :: "string option \<Rightarrow> QualityScore \<times> bool" where
  "assessBoundaryQuality boundary =
     (if js_not_str boundary then (LOW, False)
      else if the boundary \<in> set STANDARD_BOUNDARIES then (HIGH, True)
      else
        let boundaryLower = toLowerCase (the boundary)
        in if str_includes boundaryLower ''operational'' \<or> str_includes boundaryLower ''financial''
           then (HIGH, True)
           else if str_includes boundaryLower ''equity'' then (MEDIUM, True)
           else (LOW, False))"

definition assessVerificationQuality :: "string option \<Rightarrow> QualityScore" where
  "assessVerificationQuality verification =
     (if js_not_str verification then LOW
      else
        let verificationLower = toLowerCase (the verification)
        in if str_includes verificationLower ''reasonable'' then HIGH
           else if str_includes verificationLower ''limited'' then MEDIUM
           else MEDIUM)"

definition assessS12MethodologyQuality :: "string option \<Rightarrow> QualityScore" where
  "assessS12MethodologyQuality methodology =
     (if js_not_str methodology then LOW
      else
        let methodLower = toLowerCase (the methodology)
        in if str_includes methodLower ''ghg protocol'' \<or> str_includes methodLower ''iso 14064''
              \<or> str_includes methodLower ''api compendium'' \<or> str_includes methodLower ''ipieca''
           then HIGH
           else if str_includes methodLower ''eu ets'' \<or> str_includes methodLower ''epa''
              \<or> str_includes methodLower ''defra'' \<or> str_includes methodLower ''ipcc''
           then MEDIUM
           else MEDIUM)"

definition SCOPE3_METHOD_QUALITY :: "(string \<times> MethodQualityTier) list" where
  "SCOPE3_METHOD_QUALITY =
     [(''Supplier-specific method'', PRIMARY),
      (''Hybrid method'', PRIMARY),
      (''Asset-specific method'', PRIMARY),
      (''Fuel-based method'', PRIMARY),
      (''Average-data method'', MODELED),
      (''Spend-based method'', MODELED),
      (''Distance-based method'', MODELED),
      (''Waste-type-specific method'', MODELED),
      (''Site-specific method'', PRIMARY),
      (''Average product method'', MODELED),
      (''Lessor-specific method'', PRIMARY),
      (''Lessee-specific method'', PRIMARY),
      (''Franchise-specific method'', PRIMARY),
      (''Investment-specific method'', PRIMARY)]"

text \<open>The em dash that marks an undisclosed method, as its three UTF-8 bytes.\<close>

definition em_dash :: string where
  "em_dash = [char_of (226 :: nat), char_of (128 :: nat), char_of (148 :: nat)]"

definition getScope3MethodTier :: "string option \<Rightarrow> MethodQualityTier" where
  "getScope3MethodTier method =
     (if js_not_str method \<or> method = Some em_dash then UNKNOWN
      else case map_of SCOPE3_METHOD_QUALITY (the method) of
             Some t \<Rightarrow> t
           | None \<Rightarrow> UNKNOWN)"

text \<open>
  The warnings of an assessment, as the template and the interpolated values (the
  source formats the number for display).
\<close>

datatype QualityWarning =
    NonStandardBoundary string
  | NoThirdPartyVerification
  | LimitedAssurance
  | Scope3NoMethodology nat real
  | Scope3ModeledMethodology nat string real

record Scope3MethodEntry =
  s3_method :: "string option"
  s3_methodTier :: MethodQualityTier
  s3_relevancy :: "string option"
  s3_value :: "real option"

record EnhancedDataQualityAssessment =
  qa_nz_id :: int
  qa_year :: int
  boundaryScore :: QualityScore
  boundaryType :: "string option"
  boundaryIsStandard :: bool
  verificationScore :: QualityScore
  verificationType :: "string option"
  scope1MethodologyScore :: QualityScore
  scope2LBMethodologyScore :: QualityScore
  scope2MBMethodologyScore :: QualityScore
  scope3MethodQuality :: "(nat \<times> Scope3MethodEntry) list"
  overallScore :: QualityScore
  qa_warnings :: "QualityWarning list"
  methodologyConsistent :: bool
  methodologyChanges :: "string list"

text \<open>The table \<^verbatim>\<open>{ HIGH: 3, MEDIUM: 2, LOW: 1 }\<close>.\<close>

fun scores :: "QualityScore \<Rightarrow> real" where
  "scores HIGH = 3"
| "scores MEDIUM = 2"
| "scores LOW = 1"

definition calculateOverallScore :: "QualityScore \<Rightarrow> QualityScore \<Rightarrow> QualityScore \<Rightarrow> QualityScore" where
  "calculateOverallScore bScore vScore mScore =
     (let total = scores bScore + scores vScore + scores mScore;
          avg = total / 3
      in if 2.5 \<le> avg then HIGH
         else if 1.5 \<le> avg then MEDIUM
         else LOW)"

text \<open>One round of the loop over the categories 1 to 15: the entry and the warnings.\<close>

definition scope3_entry :: "EmissionsRow \<Rightarrow> nat \<Rightarrow> Scope3MethodEntry" where
  "scope3_entry e cat =
     \<lparr> s3_method = scope3_cat_method e cat,
       s3_methodTier = getScope3MethodTier (scope3_cat_method e cat),
       s3_relevancy = scope3_cat_relevancy e cat,
       s3_value = scope3_cat e cat \<rparr>"

definition scope3_warnings :: "EmissionsRow \<Rightarrow> nat \<Rightarrow> QualityWarning list" where
  "scope3_warnings e cat =
     (case scope3_cat e cat of
        None \<Rightarrow> []
      | Some v \<Rightarrow>
          if \<not> js_not (Some v) \<and> 0 < v then
            (let methodTier = getScope3MethodTier (scope3_cat_method e cat)
             in if methodTier = UNKNOWN then [Scope3NoMethodology cat v]
                else if methodTier = MODELED \<and> 1000000 < v
                then [Scope3ModeledMethodology cat (the (scope3_cat_method e cat)) v]
                else [])
          else [])"

text \<open>
  \<^verbatim>\<open>assessDataQuality\<close>. The fields \<^verbatim>\<open>nz_id\<close>, \<^verbatim>\<open>year\<close> and \<^verbatim>\<open>warnings\<close> of the
  result carry the prefix \<open>qa_\<close>.
\<close>

definition assessDataQuality :: "EmissionsRow \<Rightarrow> string option \<Rightarrow> EnhancedDataQualityAssessment" where
  "assessDataQuality e sector =
     (let (bScore, bIsStandard) = assessBoundaryQuality (EmissionsRow.organizational_boundary e);
          w_boundary =
            (if \<not> bIsStandard \<and> \<not> js_not_str (EmissionsRow.organizational_boundary e)
             then [NonStandardBoundary (the (EmissionsRow.organizational_boundary e))] else []);
          vScore = assessVerificationQuality (EmissionsRow.verification_status e);
          w_verification =
            (if vScore = LOW then [NoThirdPartyVerification]
             else if vScore = MEDIUM
                  \<and> (case EmissionsRow.verification_status e of
                        None \<Rightarrow> False
                      | Some vs \<Rightarrow> str_includes (toLowerCase vs) ''limited'')
             then [LimitedAssurance] else []);
          s1Score = assessS12MethodologyQuality (EmissionsRow.scope1_methodology e);
          s2lbScore = assessS12MethodologyQuality (EmissionsRow.scope2_lb_methodology e);
          s2mbScore = assessS12MethodologyQuality (EmissionsRow.scope2_mb_methodology e);
          cats = [1 ..< 16];
          w_scope3 = concat (map (scope3_warnings e) cats)
      in \<lparr> qa_nz_id = EmissionsRow.nz_id e,
           qa_year = EmissionsRow.year e,
           boundaryScore = bScore,
           boundaryType = EmissionsRow.organizational_boundary e,
           boundaryIsStandard = bIsStandard,
           verificationScore = vScore,
           verificationType = EmissionsRow.verification_status e,
           scope1MethodologyScore = s1Score,
           scope2LBMethodologyScore = s2lbScore,
           scope2MBMethodologyScore = s2mbScore,
           scope3MethodQuality = map (\<lambda>cat. (cat, scope3_entry e cat)) cats,
           overallScore = calculateOverallScore bScore vScore s1Score,
           qa_warnings = w_boundary @ w_verification @ w_scope3,
           methodologyConsistent = True,
           methodologyChanges = [] \<rparr>)"


section \<open>Vocabulary of the properties\<close>

subsection \<open>Statistics\<close>

text \<open>The ordering of the five order statistics of a peer group.\<close>

definition quartile_chain :: "PeerGroupStats \<Rightarrow> bool" where
  "quartile_chain s =
     (min_stat s \<le> percentile25 s \<and> percentile25 s \<le> median s
      \<and> median s \<le> percentile75 s \<and> percentile75 s \<le> max_stat s)"

text \<open>The statistics record with count 0 and every other field 0.\<close>

definition zero_sentinel :: PeerGroupStats where
  "zero_sentinel =
     \<lparr> count = 0, mean = 0, median = 0, stdDev = 0, min_stat = 0, max_stat = 0,
       percentile25 = 0, percentile75 = 0 \<rparr>"


subsection \<open>Comparability\<close>

text \<open>A check carries a warning of the given type and severity.\<close>

definition has_warning :: "WarningType \<Rightarrow> Severity \<Rightarrow> ComparabilityCheck \<Rightarrow> bool" where
  "has_warning t sv c = list_ex (\<lambda>w. wtype w = t \<and> severity w = sv) (warnings c)"

text \<open>A record reports exactly one of the two Scope 2 variants.\<close>

definition reports_only_location_based :: "EmissionsData \<Rightarrow> bool" where
  "reports_only_location_based e =
     (scope2_location_based e \<noteq> None \<and> scope2_market_based e = None)"

definition reports_only_market_based :: "EmissionsData \<Rightarrow> bool" where
  "reports_only_market_based e =
     (scope2_market_based e \<noteq> None \<and> scope2_location_based e = None)"

text \<open>When each rule of \<^verbatim>\<open>checkEmissionsComparability\<close> applies to a pair of records.\<close>

definition year_rule :: "EmissionsData \<Rightarrow> EmissionsData \<Rightarrow> bool" where
  "year_rule e1 e2 = (EmissionsData.year e1 \<noteq> EmissionsData.year e2)"

definition boundary_rule :: "EmissionsData \<Rightarrow> EmissionsData \<Rightarrow> bool" where
  "boundary_rule e1 e2 =
     (\<not> js_not_str (organizational_boundary e1) \<and> \<not> js_not_str (organizational_boundary e2)
      \<and> organizational_boundary e1 \<noteq> organizational_boundary e2)"

definition scope1_method_rule :: "EmissionsData \<Rightarrow> EmissionsData \<Rightarrow> bool" where
  "scope1_method_rule e1 e2 =
     (\<not> js_not_str (scope1_methodology e1) \<and> \<not> js_not_str (scope1_methodology e2)
      \<and> scope1_methodology e1 \<noteq> scope1_methodology e2)"

definition scope2_variant_rule :: "EmissionsData \<Rightarrow> EmissionsData \<Rightarrow> bool" where
  "scope2_variant_rule e1 e2 =
     ((scope2_location_based e1 \<noteq> None \<and> scope2_location_based e2 = None
         \<and> scope2_market_based e2 \<noteq> None)
      \<or> (scope2_market_based e1 \<noteq> None \<and> scope2_market_based e2 = None
         \<and> scope2_location_based e2 \<noteq> None))"





subsection \<open>Quality\<close>

text \<open>
  The aggregation of the specification: the three component scores mapped through
  \<^verbatim>\<open>{high: 3, medium: 2, low: 1}\<close>, their arithmetic average, and the two thresholds.
\<close>

definition average_of_three :: "QualityScore \<Rightarrow> QualityScore \<Rightarrow> QualityScore \<Rightarrow> real" where
  "average_of_three b v m = (scores b + scores v + scores m) / 3"

definition overall_by_average :: "QualityScore \<Rightarrow> QualityScore \<Rightarrow> QualityScore \<Rightarrow> QualityScore" where
  "overall_by_average b v m =
     (if 2.5 \<le> average_of_three b v m then HIGH
      else if 1.5 \<le> average_of_three b v m then MEDIUM
      else LOW)"

subsection \<open>Sample data\<close>

definition no_cat_value :: "nat \<Rightarrow> real option" where
  "no_cat_value i = None"

definition no_cat_text :: "nat \<Rightarrow> string option" where
  "no_cat_text i = None"

definition sample_company :: "int \<Rightarrow> CompanyRow" where
  "sample_company i =
     \<lparr> CompanyRow.nz_id = i, company_name = ''Co'', jurisdiction = Some ''NZ'',
       sics_sector = Some ''Energy'', sics_sub_sector = None, sics_industry = None,
       lei = None, latest_reported_year = Some 2022 \<rparr>"

definition sample_row :: "int \<Rightarrow> real \<Rightarrow> EmissionsRow" where
  "sample_row i v =
     \<lparr> row_id = i, EmissionsRow.nz_id = i, EmissionsRow.year = 2022, scope1 = Some v,
       EmissionsRow.scope1_methodology = Some ''EPA'', scope2_lb = None, scope2_mb = None,
       EmissionsRow.scope2_lb_methodology = None,
       EmissionsRow.scope2_mb_methodology = None,
       EmissionsRow.scope3_total = None, scope3_cat = no_cat_value,
       scope3_cat_method = no_cat_text, scope3_cat_relevancy = no_cat_text,
       EmissionsRow.organizational_boundary = Some ''Operational control'',
       EmissionsRow.verification_status = None \<rparr>"

text \<open>Five companies of one sector with the Scope 1 values 10, 20, 30, 40 and 100.\<close>

definition sample_db :: Database where
  "sample_db =
     \<lparr> companies = map sample_company [1, 2, 3, 4, 5],
       emissions = [sample_row 1 10, sample_row 2 20, sample_row 3 30,
                    sample_row 4 40, sample_row 5 100] \<rparr>"

definition empty_db :: Database where
  "empty_db = \<lparr> companies = [], emissions = [] \<rparr>"

definition energy_2022 :: PeerFilters where
  "energy_2022 =
     \<lparr> flt_jurisdiction = None, flt_sics_sector = Some ''Energy'', flt_year = Some 2022 \<rparr>"

definition sample_data :: "int \<Rightarrow> int \<Rightarrow> real option \<Rightarrow> real option \<Rightarrow> string \<Rightarrow> EmissionsData" where
  "sample_data i y lb mb boundary =
     \<lparr> company_id = i, EmissionsData.year = y, scope1_emissions = Some 5,
       EmissionsData.scope1_methodology = None,
       scope2_location_based = lb, scope2_market_based = mb,
       EmissionsData.scope2_lb_methodology = None,
       EmissionsData.scope2_mb_methodology = None,
       EmissionsData.scope3_total = None, scope3_categories = None,
       EmissionsData.organizational_boundary = Some boundary,
       EmissionsData.verification_status = None \<rparr>"

definition sample_point :: "int \<Rightarrow> real \<Rightarrow> PeerTrendDataPoint" where
  "sample_point y m =
     \<lparr> PeerTrendDataPoint.year = y, PeerTrendDataPoint.count = 3,
       PeerTrendDataPoint.mean = m, PeerTrendDataPoint.median = m,
       PeerTrendDataPoint.min_stat = m, PeerTrendDataPoint.max_stat = m,
       PeerTrendDataPoint.percentile25 = m, PeerTrendDataPoint.percentile75 = m \<rparr>"


section \<open>Properties\<close>

subsection \<open>Growth rate\<close>

lemma js_not_Some [simp]: "js_not (Some x) = (x = 0)"
  by (simp add: js_not_def)

lemma js_not_None [simp]: "js_not None"
  by (simp add: js_not_def)

text \<open>
  C10. Whenever the end-period value is 0 or absent, \<^verbatim>\<open>calculateCAGR\<close> returns null,
  whatever the begin value and the number of years are (so also for a strictly positive
  begin value and more than one year): a collapse to zero is reported as null and in
  particular never as \<open>-100\<close> percent.
\<close>

theorem calculateCAGR_zero_end_null:
  assumes "endValue = None \<or> endValue = Some 0"
  shows "calculateCAGR beginValue endValue yearsApart = None
         \<and> calculateCAGR beginValue endValue yearsApart \<noteq> Some (- 100)"
  using assms by (auto simp: calculateCAGR_def split: option.splits)

theorem calculateCAGR_zero_end_null_witness:
  "calculateCAGR (Some 100) (Some 0) 3 = None \<and> calculateCAGR (Some 100) None 3 = None"
  using calculateCAGR_zero_end_null [of "Some 0" "Some 100" 3]
    calculateCAGR_zero_end_null [of None "Some 100" 3]
  by simp

subsection \<open>Order statistics\<close>

lemma floor_idx_quarter: "Math_floor_idx (real n * 0.25) = n div 4"
proof -
  have "real n * 0.25 = real n / real 4" by simp
  then have "\<lfloor>real n * 0.25\<rfloor> = int (n div 4)"
    by (simp only: floor_divide_of_nat_eq)
  then show ?thesis by (simp add: Math_floor_idx_def)
qed

lemma floor_idx_three_quarters: "Math_floor_idx (real n * 0.75) = (3 * n) div 4"
proof -
  have "real n * 0.75 = real (3 * n) / real 4" by simp
  then have "\<lfloor>real n * 0.75\<rfloor> = int ((3 * n) div 4)"
    by (simp only: floor_divide_of_nat_eq)
  then show ?thesis by (simp add: Math_floor_idx_def)
qed

lemma floor_idx_half: "Math_floor_idx (real n / 2) = n div 2"
proof -
  have "real n / 2 = real n / real 2" by simp
  then have "\<lfloor>real n / 2\<rfloor> = int (n div 2)"
    by (simp only: floor_divide_of_nat_eq)
  then show ?thesis by (simp add: Math_floor_idx_def)
qed

lemma floor_idx_quarter': "Math_floor_idx (real n / 4) = n div 4"
  using floor_idx_quarter [of n] by simp

lemma floor_idx_three_quarters': "Math_floor_idx (real n * 3 / 4) = (3 * n) div 4"
  using floor_idx_three_quarters [of n] by simp

text \<open>Every index that the statistics read lies inside the sample.\<close>

lemma stat_indices_in_range:
  fixes n :: nat
  assumes "0 < n"
  shows "n div 4 < n" and "n div 2 < n" and "(3 * n) div 4 < n" and "n - 1 < n"
  using assms by linarith+

lemma sorted_chain:
  fixes xs :: "real list"
  assumes srt: "sorted xs" and ne: "xs \<noteq> []"
  defines "n \<equiv> length xs"
  defines "med \<equiv> (if n mod 2 = 0 then (xs ! (n div 2 - 1) + xs ! (n div 2)) / 2
                   else xs ! (n div 2))"
  shows "xs ! 0 \<le> xs ! (n div 4) \<and> xs ! (n div 4) \<le> med
         \<and> med \<le> xs ! ((3 * n) div 4) \<and> xs ! ((3 * n) div 4) \<le> xs ! (n - 1)"
proof -
  have n0: "0 < n" using ne by (simp add: n_def)
  have mono: "\<And>i j. i \<le> j \<Longrightarrow> j < n \<Longrightarrow> xs ! i \<le> xs ! j"
    using srt by (simp add: n_def sorted_nth_mono)
  have lo: "xs ! 0 \<le> xs ! (n div 4)"
    using n0 by (intro mono) linarith+
  have hi: "xs ! ((3 * n) div 4) \<le> xs ! (n - 1)"
    using n0 by (intro mono) linarith+
  have q1: "xs ! (n div 4) \<le> xs ! (n div 2)"
    using n0 by (intro mono) linarith+
  have q3: "xs ! (n div 2) \<le> xs ! ((3 * n) div 4)"
    using n0 by (intro mono) linarith+
  have q3': "xs ! (n div 2 - 1) \<le> xs ! ((3 * n) div 4)"
    using n0 by (intro mono) linarith+
  have q1': "xs ! (n div 4) \<le> xs ! (n div 2 - 1)" if "n mod 2 = 0"
    using n0 that by (intro mono) linarith+
  have "xs ! (n div 4) \<le> med"
  proof (cases "n mod 2 = 0")
    case True
    with q1 q1' show ?thesis by (simp add: med_def)
  next
    case False
    with q1 show ?thesis by (simp add: med_def)
  qed
  moreover have "med \<le> xs ! ((3 * n) div 4)"
  proof (cases "n mod 2 = 0")
    case True
    with q3 q3' show ?thesis by (simp add: med_def)
  next
    case False
    with q3 show ?thesis by (simp add: med_def)
  qed
  ultimately show ?thesis using lo hi by simp
qed

lemma sort_not_Nil: "xs \<noteq> [] \<Longrightarrow> sort xs \<noteq> []"
  by (metis length_0_conv length_sort)

lemma calculatePeerStats_fields:
  assumes "values \<noteq> []"
  defines "xs \<equiv> sort values"
  defines "n \<equiv> length xs"
  shows "min_stat (calculatePeerStats values) = xs ! 0"
    and "percentile25 (calculatePeerStats values) = xs ! (n div 4)"
    and "median (calculatePeerStats values) =
          (if n mod 2 = 0 then (xs ! (n div 2 - 1) + xs ! (n div 2)) / 2 else xs ! (n div 2))"
    and "percentile75 (calculatePeerStats values) = xs ! ((3 * n) div 4)"
    and "max_stat (calculatePeerStats values) = xs ! (n - 1)"
  using assms(1) unfolding xs_def n_def calculatePeerStats_def Let_def
  by (simp_all add: floor_idx_quarter' floor_idx_three_quarters' floor_idx_half)

lemma calculatePeerStats_chain:
  assumes "values \<noteq> []"
  shows "quartile_chain (calculatePeerStats values)"
proof -
  have s: "sorted (sort values)" and ne: "sort values \<noteq> []"
    using assms by (simp_all add: sort_not_Nil)
  show ?thesis
    unfolding quartile_chain_def calculatePeerStats_fields [OF assms]
    using sorted_chain [OF s ne] by blast
qed

lemma sorted_peer_values: "sorted (peer_values db scope filters)"
  by (simp add: peer_values_def)

lemma getPeerStatistics_fields:
  assumes "peer_values db scope filters \<noteq> []"
  defines "xs \<equiv> peer_values db scope filters"
  defines "n \<equiv> length xs"
  shows "\<exists>s. getPeerStatistics db scope filters = Some s
           \<and> count s = n
           \<and> min_stat s = xs ! 0
           \<and> percentile25 s = xs ! (n div 4)
           \<and> median s = (if n mod 2 = 0 then (xs ! (n div 2 - 1) + xs ! (n div 2)) / 2
                          else xs ! (n div 2))
           \<and> percentile75 s = xs ! ((3 * n) div 4)
           \<and> max_stat s = xs ! (n - 1)"
  using assms(1) unfolding xs_def n_def getPeerStatistics_def Let_def
  by (simp add: floor_idx_quarter' floor_idx_three_quarters' floor_idx_half)

lemma getPeerStatistics_chain:
  assumes "peer_values db scope filters \<noteq> []"
  shows "\<exists>s. getPeerStatistics db scope filters = Some s \<and> quartile_chain s"
proof -
  define xs where "xs = peer_values db scope filters"
  from getPeerStatistics_fields [OF assms] obtain s where
    s: "getPeerStatistics db scope filters = Some s"
    and f: "min_stat s = xs ! 0"
      "percentile25 s = xs ! (length xs div 4)"
      "median s = (if length xs mod 2 = 0
         then (xs ! (length xs div 2 - 1) + xs ! (length xs div 2)) / 2
         else xs ! (length xs div 2))"
      "percentile75 s = xs ! ((3 * length xs) div 4)"
      "max_stat s = xs ! (length xs - 1)"
    unfolding xs_def by blast
  have "sorted xs" "xs \<noteq> []"
    using assms by (simp_all add: xs_def sorted_peer_values)
  then have "quartile_chain s"
    unfolding quartile_chain_def f
    using sorted_chain [of xs] by blast
  with s show ?thesis by blast
qed

text \<open>
  C6. For every non-empty sample the statistics are ordered
  \<open>min \<le> percentile25 \<le> median \<le> percentile75 \<le> max\<close>: for
  \<^verbatim>\<open>calculatePeerStats\<close> on any non-empty array, and for \<^verbatim>\<open>getPeerStatistics\<close>, which
  returns a statistics record whenever its query selects at least one value.
\<close>

theorem stats_quartile_chain:
  "(values \<noteq> [] \<longrightarrow> quartile_chain (calculatePeerStats values))
   \<and> (peer_values db scope filters \<noteq> []
        \<longrightarrow> (\<exists>s. getPeerStatistics db scope filters = Some s \<and> quartile_chain s))"
  using calculatePeerStats_chain getPeerStatistics_chain by blast

lemma sample_peer_values:
  "peer_values sample_db Scope1 energy_2022 = [10, 20, 30, 40, 100]"
  by (simp add: peer_values_def sample_db_def sample_company_def sample_row_def
      energy_2022_def whereClause_def js_not_str_def js_not_int_def sql_lower_eq_def)

theorem stats_quartile_chain_witness:
  "quartile_chain (calculatePeerStats [10, 20, 30, 40, 100])
   \<and> (\<exists>s. getPeerStatistics sample_db Scope1 energy_2022 = Some s \<and> quartile_chain s)"
  using stats_quartile_chain [of "[10, 20, 30, 40, 100]" sample_db Scope1 energy_2022]
  by (simp add: sample_peer_values)

subsection \<open>The empty sample\<close>

lemma getPeerStatistics_None_iff:
  "getPeerStatistics db scope filters = None \<longleftrightarrow> peer_values db scope filters = []"
  by (simp add: getPeerStatistics_def Let_def)

lemma empty_peer_values: "peer_values empty_db scope filters = []"
  by (simp add: peer_values_def empty_db_def)

text \<open>
  C3, as amended. For the empty sample \<^verbatim>\<open>calculatePeerStats\<close> returns the zero sentinel
  (count 0 and every other field 0), while \<^verbatim>\<open>getPeerStatistics\<close> returns null, and
  null only then, when the cohort filter selects no value; both are values of the result
  type, so neither raises.
\<close>

theorem empty_sample_statistics:
  "calculatePeerStats [] = zero_sentinel
   \<and> count (calculatePeerStats []) = 0
   \<and> (getPeerStatistics db scope filters = None \<longleftrightarrow> peer_values db scope filters = [])"
  by (simp add: calculatePeerStats_def zero_sentinel_def getPeerStatistics_None_iff)

theorem empty_sample_statistics_witness:
  "calculatePeerStats [] = zero_sentinel
   \<and> getPeerStatistics empty_db Scope1 energy_2022 = None
   \<and> getPeerStatistics sample_db Scope1 energy_2022 \<noteq> None"
  using empty_sample_statistics [of empty_db Scope1 energy_2022]
    empty_sample_statistics [of sample_db Scope1 energy_2022]
  by (simp add: empty_peer_values sample_peer_values)

text \<open>
  The claim as it stands fails on the record store: with no matching value
  \<^verbatim>\<open>getPeerStatistics\<close> yields null and not a record of zeros.
\<close>

theorem empty_sample_not_sentinel_counterexample:
  "getPeerStatistics empty_db Scope1 energy_2022 \<noteq> Some zero_sentinel"
  by (simp add: getPeerStatistics_def Let_def empty_peer_values)

subsection \<open>Percentile rank\<close>














subsection \<open>Growth rate of the trend\<close>

lemma calculateCAGR_cases:
  "calculateCAGR (Some b) (Some e) yearsApart =
     (if 0 < b \<and> e \<noteq> 0 \<and> 1 < yearsApart
      then Some (((e / b) powr (1 / real_of_int yearsApart) - 1) * 100) else None)"
  by (auto simp: calculateCAGR_def)

lemma calculateCAGR_null_arg:
  "calculateCAGR None endValue yearsApart = None"
  "calculateCAGR beginValue None yearsApart = None"
  by (simp_all add: calculateCAGR_def split: option.splits)

lemma calculateCAGR_computed_iff:
  "calculateCAGR beginValue endValue yearsApart \<noteq> None \<longleftrightarrow>
     (\<exists>b e. beginValue = Some b \<and> endValue = Some e \<and> 0 < b \<and> e \<noteq> 0 \<and> 1 < yearsApart)"
proof (cases beginValue)
  case None
  then show ?thesis by (simp add: calculateCAGR_null_arg)
next
  case (Some b)
  show ?thesis
  proof (cases endValue)
    case None
    then show ?thesis by (simp add: calculateCAGR_null_arg)
  next
    case (Some e)
    with \<open>beginValue = Some b\<close> show ?thesis by (simp add: calculateCAGR_cases)
  qed
qed

lemma analyzeTrend_growth_short:
  "length dataPoints < 2 \<Longrightarrow> averageAnnualGrowthRate (analyzeTrend dataPoints) = None"
  by (simp add: analyzeTrend_def)

lemma analyzeTrend_growth_long:
  assumes "2 \<le> length dataPoints"
  shows "averageAnnualGrowthRate (analyzeTrend dataPoints) =
     (if 0 < PeerTrendDataPoint.year (last dataPoints) - PeerTrendDataPoint.year (hd dataPoints)
         \<and> 0 < PeerTrendDataPoint.mean (hd dataPoints)
      then Some (((PeerTrendDataPoint.mean (last dataPoints) / PeerTrendDataPoint.mean (hd dataPoints))
                   powr (1 / real_of_int (PeerTrendDataPoint.year (last dataPoints)
                                          - PeerTrendDataPoint.year (hd dataPoints))) - 1) * 100)
      else None)"
  using assms by (simp add: analyzeTrend_def Let_def)

lemma analyzeTrend_computed_iff:
  "averageAnnualGrowthRate (analyzeTrend dataPoints) \<noteq> None \<longleftrightarrow>
     2 \<le> length dataPoints
     \<and> 0 < PeerTrendDataPoint.year (last dataPoints) - PeerTrendDataPoint.year (hd dataPoints)
     \<and> 0 < PeerTrendDataPoint.mean (hd dataPoints)"
proof (cases "2 \<le> length dataPoints")
  case True
  then show ?thesis by (simp add: analyzeTrend_growth_long)
next
  case False
  then show ?thesis by (simp add: analyzeTrend_growth_short)
qed

text \<open>
  C5, as amended. \<^verbatim>\<open>calculateCAGR\<close> of the year-to-year comparison computes a rate
  exactly when the first value is positive, the last value is present and not zero, and
  \<open>yearsApart > 1\<close>; it is null in every other case, and for a positive last value the
  rate is \<open>((last / first) powr (1 / yearsApart) - 1) * 100\<close>. The growth rate of the
  peer trend (\<^verbatim>\<open>analyzeTrend\<close>) is computed exactly when there are at least two data
  points, \<open>yearsApart > 0\<close> and the first mean is positive, and then is the same formula
  over the first and last means: a span of one year has a growth rate there.
\<close>

theorem growth_rate_conditions:
  "(calculateCAGR beginValue endValue yearsApart \<noteq> None \<longleftrightarrow>
      (\<exists>b e. beginValue = Some b \<and> endValue = Some e \<and> 0 < b \<and> e \<noteq> 0 \<and> 1 < yearsApart))
   \<and> (0 < b \<and> 0 < e \<and> 1 < yearsApart \<longrightarrow>
        calculateCAGR (Some b) (Some e) yearsApart
          = Some (((e / b) powr (1 / real_of_int yearsApart) - 1) * 100))
   \<and> (averageAnnualGrowthRate (analyzeTrend dataPoints) \<noteq> None \<longleftrightarrow>
        2 \<le> length dataPoints
        \<and> 0 < PeerTrendDataPoint.year (last dataPoints) - PeerTrendDataPoint.year (hd dataPoints)
        \<and> 0 < PeerTrendDataPoint.mean (hd dataPoints))
   \<and> (2 \<le> length dataPoints
        \<and> 0 < PeerTrendDataPoint.year (last dataPoints) - PeerTrendDataPoint.year (hd dataPoints)
        \<and> 0 < PeerTrendDataPoint.mean (hd dataPoints)
        \<and> 0 \<le> PeerTrendDataPoint.mean (last dataPoints) \<longrightarrow>
        averageAnnualGrowthRate (analyzeTrend dataPoints)
          = Some (((PeerTrendDataPoint.mean (last dataPoints)
                      / PeerTrendDataPoint.mean (hd dataPoints))
                    powr (1 / real_of_int (PeerTrendDataPoint.year (last dataPoints)
                                           - PeerTrendDataPoint.year (hd dataPoints))) - 1) * 100))"
proof -
  have "0 < b \<and> 0 < e \<and> 1 < yearsApart \<longrightarrow>
        calculateCAGR (Some b) (Some e) yearsApart
          = Some (((e / b) powr (1 / real_of_int yearsApart) - 1) * 100)"
    by (simp add: calculateCAGR_cases)
  moreover have "2 \<le> length dataPoints
        \<and> 0 < PeerTrendDataPoint.year (last dataPoints) - PeerTrendDataPoint.year (hd dataPoints)
        \<and> 0 < PeerTrendDataPoint.mean (hd dataPoints)
        \<and> 0 \<le> PeerTrendDataPoint.mean (last dataPoints) \<longrightarrow>
        averageAnnualGrowthRate (analyzeTrend dataPoints)
          = Some (((PeerTrendDataPoint.mean (last dataPoints)
                      / PeerTrendDataPoint.mean (hd dataPoints))
                    powr (1 / real_of_int (PeerTrendDataPoint.year (last dataPoints)
                                           - PeerTrendDataPoint.year (hd dataPoints))) - 1) * 100)"
    by (simp add: analyzeTrend_growth_long)
  ultimately show ?thesis
    using calculateCAGR_computed_iff [of beginValue endValue yearsApart]
      analyzeTrend_computed_iff [of dataPoints]
    by blast
qed

lemma four_powr_half: "(4 :: real) powr (1 / 2) = 2"
  by (simp add: powr_half_sqrt)

theorem growth_rate_conditions_witness:
  "calculateCAGR (Some 100) (Some 400) 2 = Some 100
   \<and> calculateCAGR (Some 100) (Some 400) 1 = None
   \<and> averageAnnualGrowthRate (analyzeTrend [sample_point 2020 100]) = None
   \<and> averageAnnualGrowthRate (analyzeTrend [sample_point 2020 100, sample_point 2022 400])
       = Some 100"
  using growth_rate_conditions [of "Some 100" "Some 400" 2 100 400 "[sample_point 2020 100]"]
    growth_rate_conditions [of "Some 100" "Some 400" 1 100 400
      "[sample_point 2020 100, sample_point 2022 400]"]
  by (simp add: sample_point_def four_powr_half)

text \<open>
  The claim as it stands fails for the peer trend: two data points one year apart, with
  the means 100 and 200, have the growth rate 100 percent and not null.
\<close>

theorem growth_rate_one_year_counterexample:
  "PeerTrendDataPoint.year (sample_point 2021 200) - PeerTrendDataPoint.year (sample_point 2020 100) = 1
   \<and> averageAnnualGrowthRate (analyzeTrend [sample_point 2020 100, sample_point 2021 200])
       = Some 100"
  by (simp add: analyzeTrend_def Let_def sample_point_def)

subsection \<open>Comparability\<close>

lemma checkScope2_mismatch:
  assumes "methodology1 \<noteq> methodology2"
  shows "\<not> isComparable (checkScope2Comparability methodology1 methodology2)"
    and "has_warning scope2_mismatch error (checkScope2Comparability methodology1 methodology2)"
  using assms by (simp_all add: checkScope2Comparability_def has_warning_def)

lemma checkEmissions_rules:
  "has_warning year_mismatch warning (checkEmissionsComparability e1 e2) = year_rule e1 e2"
  "has_warning boundary_mismatch warning (checkEmissionsComparability e1 e2) = boundary_rule e1 e2"
  "has_warning methodology_mismatch info (checkEmissionsComparability e1 e2) = scope1_method_rule e1 e2"
  "has_warning scope2_mismatch error (checkEmissionsComparability e1 e2) = scope2_variant_rule e1 e2"
  "isComparable (checkEmissionsComparability e1 e2) = (\<not> scope2_variant_rule e1 e2)"
  unfolding checkEmissionsComparability_def Let_def has_warning_def year_rule_def
    boundary_rule_def scope1_method_rule_def scope2_variant_rule_def
  by auto

text \<open>
  C1. When one record reports only the location-based and the other only the
  market-based Scope 2 figure, \<^verbatim>\<open>checkEmissionsComparability\<close> returns
  \<open>isComparable = False\<close> and a \<open>scope2_mismatch\<close> warning of severity \<open>error\<close>, whatever
  the reporting years, boundaries and other fields of the two records are; and
  \<^verbatim>\<open>checkScope2Comparability\<close> does so for any two different methodology variants.
\<close>

theorem scope2_variant_mismatch_blocks:
  assumes "(reports_only_location_based e1 \<and> reports_only_market_based e2)
           \<or> (reports_only_market_based e1 \<and> reports_only_location_based e2)"
    and "methodology1 \<noteq> methodology2"
  shows "\<not> isComparable (checkEmissionsComparability e1 e2)
         \<and> has_warning scope2_mismatch error (checkEmissionsComparability e1 e2)
         \<and> \<not> isComparable (checkScope2Comparability methodology1 methodology2)
         \<and> has_warning scope2_mismatch error (checkScope2Comparability methodology1 methodology2)"
proof -
  have "scope2_variant_rule e1 e2"
    using assms(1)
    by (auto simp: scope2_variant_rule_def reports_only_location_based_def
        reports_only_market_based_def)
  then show ?thesis
    using checkScope2_mismatch [OF assms(2)] by (simp add: checkEmissions_rules)
qed

theorem scope2_variant_mismatch_blocks_witness:
  "\<not> isComparable (checkEmissionsComparability
        (sample_data 1 2022 (Some 5) None ''Operational control'')
        (sample_data 2 2022 None (Some 7) ''Operational control''))
   \<and> has_warning scope2_mismatch error (checkEmissionsComparability
        (sample_data 1 2021 None (Some 7) ''Equity share'')
        (sample_data 2 2022 (Some 5) None ''Operational control''))
   \<and> \<not> isComparable (checkScope2Comparability location_based market_based)"
proof -
  have a: "reports_only_location_based (sample_data 1 2022 (Some 5) None ''Operational control'')"
    and b: "reports_only_market_based (sample_data 2 2022 None (Some 7) ''Operational control'')"
    and c: "reports_only_market_based (sample_data 1 2021 None (Some 7) ''Equity share'')"
    and d: "reports_only_location_based (sample_data 2 2022 (Some 5) None ''Operational control'')"
    by (simp_all add: reports_only_location_based_def reports_only_market_based_def
        sample_data_def)
  have m: "location_based \<noteq> market_based" by simp
  show ?thesis
    using scope2_variant_mismatch_blocks [OF disjI1 [OF conjI [OF a b]] m]
      scope2_variant_mismatch_blocks [OF disjI2 [OF conjI [OF c d]] m]
    by simp
qed






subsection \<open>Overall quality score\<close>

lemma calculateOverallScore_average:
  "calculateOverallScore b v m = overall_by_average b v m"
  by (simp add: calculateOverallScore_def overall_by_average_def average_of_three_def Let_def)

lemma assessDataQuality_scores:
  "boundaryScore (assessDataQuality e sector)
     = fst (assessBoundaryQuality (EmissionsRow.organizational_boundary e))"
  "verificationScore (assessDataQuality e sector)
     = assessVerificationQuality (EmissionsRow.verification_status e)"
  "scope1MethodologyScore (assessDataQuality e sector)
     = assessS12MethodologyQuality (EmissionsRow.scope1_methodology e)"
  "overallScore (assessDataQuality e sector)
     = calculateOverallScore
         (fst (assessBoundaryQuality (EmissionsRow.organizational_boundary e)))
         (assessVerificationQuality (EmissionsRow.verification_status e))
         (assessS12MethodologyQuality (EmissionsRow.scope1_methodology e))"
  by (simp_all add: assessDataQuality_def Let_def split: prod.splits)

text \<open>
  C4. The overall score of an assessment is the aggregation by average of its boundary
  score, its verification score and its (Scope 1) methodology score: each mapped through
  HIGH 3, MEDIUM 2, LOW 1, averaged, HIGH from 2.5, MEDIUM from 1.5, LOW below. Boundary
  HIGH, verification LOW and methodology MEDIUM average to 2 and give MEDIUM.
\<close>

theorem overall_score_is_average:
  "overallScore (assessDataQuality e sector)
     = overall_by_average (boundaryScore (assessDataQuality e sector))
         (verificationScore (assessDataQuality e sector))
         (scope1MethodologyScore (assessDataQuality e sector))
   \<and> calculateOverallScore b v m = overall_by_average b v m
   \<and> average_of_three HIGH LOW MEDIUM = 2
   \<and> calculateOverallScore HIGH LOW MEDIUM = MEDIUM"
  by (simp add: assessDataQuality_scores calculateOverallScore_average
      overall_by_average_def average_of_three_def)

lemma sample_row_components:
  "assessBoundaryQuality (Some ''Operational control'') = (HIGH, True)"
  "assessVerificationQuality None = LOW"
  "assessS12MethodologyQuality (Some ''EPA'') = MEDIUM"
  by code_simp+

theorem overall_score_is_average_witness:
  "boundaryScore (assessDataQuality (sample_row 1 10) None) = HIGH
   \<and> verificationScore (assessDataQuality (sample_row 1 10) None) = LOW
   \<and> scope1MethodologyScore (assessDataQuality (sample_row 1 10) None) = MEDIUM
   \<and> overallScore (assessDataQuality (sample_row 1 10) None) = MEDIUM"
  using overall_score_is_average [of "sample_row 1 10" None HIGH LOW MEDIUM]
  by (simp add: assessDataQuality_scores sample_row_def sample_row_components
      overall_by_average_def average_of_three_def)

text \<open>
  C9. Two emissions records that agree on the organizational boundary, the verification
  status and the Scope 1 methodology get the same overall score, whatever their Scope 2
  methodologies, their Scope 3 categories and methods, and the sector argument are.
\<close>

theorem overall_score_depends_on_three_fields:
  assumes "EmissionsRow.organizational_boundary e1 = EmissionsRow.organizational_boundary e2"
    and "EmissionsRow.verification_status e1 = EmissionsRow.verification_status e2"
    and "EmissionsRow.scope1_methodology e1 = EmissionsRow.scope1_methodology e2"
  shows "overallScore (assessDataQuality e1 sector1) = overallScore (assessDataQuality e2 sector2)"
  using assms by (simp add: assessDataQuality_scores)

theorem overall_score_depends_on_three_fields_witness:
  "overallScore (assessDataQuality (sample_row 1 10) None)
     = overallScore (assessDataQuality
         ((sample_row 2 20)
            \<lparr> EmissionsRow.scope2_lb_methodology := Some ''GHG Protocol'',
              EmissionsRow.scope2_mb_methodology := Some ''Supplier data'',
              scope3_cat := (\<lambda>i. Some 2000000),
              scope3_cat_method := (\<lambda>i. Some ''Spend-based method'') \<rparr>)
         (Some ''Energy''))"
  using overall_score_depends_on_three_fields
    [of "sample_row 1 10"
        "(sample_row 2 20)
            \<lparr> EmissionsRow.scope2_lb_methodology := Some ''GHG Protocol'',
              EmissionsRow.scope2_mb_methodology := Some ''Supplier data'',
              scope3_cat := (\<lambda>i. Some 2000000),
              scope3_cat_method := (\<lambda>i. Some ''Spend-based method'') \<rparr>"
        None "Some ''Energy''"]
  by (simp add: sample_row_def)

subsection \<open>Unknown company identifiers\<close>














end
